theory Spec2Isabelle
  imports
    Complex_Main
    "HOL-Library.Char_ord"
    "HOL-Library.List_Lexorder"
    "HOL-Library.Product_Lexorder"
    "HOL-Library.Sublist"
begin

section \<open>Conventions\<close>

text \<open>
  The service is a FastAPI application over one SQLite table. The theory embeds the
  handlers of \<^verbatim>\<open>app/core/security.py\<close>, \<^verbatim>\<open>app/schemas/message.py\<close>,
  \<^verbatim>\<open>app/api/webhook.py\<close>, \<^verbatim>\<open>app/api/messages.py\<close> and \<^verbatim>\<open>app/api/metrics.py\<close>.

  \<^item> A Python \<^verbatim>\<open>bytes\<close> value is a \<^typ>\<open>string\<close>, one \<^typ>\<open>char\<close> per byte.
  \<^item> A Python \<^verbatim>\<open>str\<close> is a \<^typ>\<open>string\<close> too, one \<^typ>\<open>char\<close> per code point; the
    model therefore covers the code points below 256. That is exactly what a header value
    holds (Starlette decodes header bytes as Latin-1).
  \<^item> A \<^verbatim>\<open>datetime\<close> is a record of its date and time, as a number, and of its UTC
    offset when it has one. The model fixes no unit for the two numbers (the examples
    count seconds): the source compares and orders timestamps and does no arithmetic on
    them. A \<^verbatim>\<open>DateTime\<close> column of SQLite stores the date and time and drops the offset.
  \<^item> What the standard library and the third-party packages compute (the HMAC digest,
    \<^verbatim>\<open>json.loads\<close>, Pydantic's coercion of a value to \<^verbatim>\<open>datetime\<close>) is a field
    of the record \<open>library\<close>, which every handler takes as its first argument.
\<close>

type_synonym bytes = string

datatype json =
    JNull
  | JBool bool
  | JInt int
  | JFloat real
  | JStr string
  | JArr "json list"
  | JObj "(string \<times> json) list"

text \<open>
  What \<^verbatim>\<open>WebhookMessageRequest.model_validate\<close> raises: Pydantic's
  \<^verbatim>\<open>ValidationError\<close>, with the names of the offending fields, or the
  \<^verbatim>\<open>TypeError\<close> of \<^verbatim>\<open>re.match\<close> on a value that is not a string, which
  Pydantic does not convert. A response detail is a fixed message or \<^verbatim>\<open>str(e)\<close> of
  such an exception.
\<close>

datatype validation_exn = ValidationError "string list" | MatchTypeError

datatype detail = Msg string | Str validation_exn

text \<open>
  The exceptions of the model. \<^verbatim>\<open>json.loads\<close> raises \<^verbatim>\<open>JSONDecodeError\<close> on text that
  is not JSON, \<^verbatim>\<open>UnicodeDecodeError\<close> on bytes that are not text, and
  \<^verbatim>\<open>RecursionError\<close> on nesting that is too deep. \<^verbatim>\<open>OperationalError\<close> is what
  SQLAlchemy raises when SQLite fails to execute a statement.
\<close>

datatype py_exception =
    HTTPException nat detail
  | TypeError
  | IntegrityError
  | JSONDecodeError
  | UnicodeDecodeError
  | RecursionError
  | OperationalError

record datetime =
  wall_clock :: int
  utcoffset :: "int option"

record library =
  hmac_sha256 :: "bytes \<Rightarrow> bytes \<Rightarrow> bytes"
  json_loads :: "bytes \<Rightarrow> py_exception + json"
  to_datetime :: "json \<Rightarrow> datetime option"

datatype content = StatusJson string | DetailJson detail | PlainText string

datatype response = Response (status_code: nat) (content: content)

text \<open>
  How the framework answers: a returned \<^verbatim>\<open>WebhookResponse\<close> is a 200 with its status,
  an \<^verbatim>\<open>HTTPException\<close> is answered with its own status code and detail, and any other
  exception that leaves a handler or a dependency is a 500.
\<close>

definition ok_response :: response where
  "ok_response = Response 200 (StatusJson ''ok'')"

definition exception_response :: "py_exception \<Rightarrow> response" where
  "exception_response e =
     (case e of
        HTTPException code d \<Rightarrow> Response code (DetailJson d)
      | _ \<Rightarrow> Response 500 (PlainText ''Internal Server Error''))"

section \<open>Signature verification (\<^verbatim>\<open>app/core/security.py\<close>, \<^verbatim>\<open>app/core/config.py\<close>)\<close>

record settings =
  webhook_secret :: "string option"

definition is_webhook_secret_configured :: "settings \<Rightarrow> bool" where
  "is_webhook_secret_configured s =
     (case webhook_secret s of None \<Rightarrow> False | Some secret \<Rightarrow> secret \<noteq> [] \<and> length secret > 0)"

text \<open>\<^verbatim>\<open>str.encode("utf-8")\<close> on code points below 256: one byte below 128, two bytes above.\<close>

definition encode_utf8 :: "string \<Rightarrow> bytes" where
  "encode_utf8 s =
     concat (map (\<lambda>c. let n = (of_char c :: nat) in
                          if n < 128 then [c]
                          else [char_of (192 + n div 64), char_of (128 + n mod 64)]) s)"

definition hex_digit :: "nat \<Rightarrow> char" where
  "hex_digit n = ''0123456789abcdef'' ! n"

text \<open>\<^verbatim>\<open>HMAC.hexdigest()\<close>: two lower-case hexadecimal digits for every byte of the digest.\<close>

definition hexdigest :: "bytes \<Rightarrow> string" where
  "hexdigest d =
     concat (map (\<lambda>b. [hex_digit ((of_char b :: nat) div 16), hex_digit ((of_char b :: nat) mod 16)]) d)"

definition compute_signature :: "library \<Rightarrow> string \<Rightarrow> bytes \<Rightarrow> string" where
  "compute_signature L secret body = hexdigest (hmac_sha256 L (encode_utf8 secret) body)"

definition is_ascii :: "string \<Rightarrow> bool" where
  "is_ascii s = list_all (\<lambda>c. (of_char c :: nat) < 128) s"

text \<open>
  \<^verbatim>\<open>hmac.compare_digest\<close> on two \<^verbatim>\<open>str\<close> arguments: equality, and a
  \<^verbatim>\<open>TypeError\<close> when either argument has a non-ASCII character.
\<close>

definition compare_digest :: "string \<Rightarrow> string \<Rightarrow> py_exception + bool" where
  "compare_digest a b = (if is_ascii a \<and> is_ascii b then Inr (a = b) else Inl TypeError)"

definition verify_signature :: "library \<Rightarrow> string \<Rightarrow> bytes \<Rightarrow> string \<Rightarrow> py_exception + bool" where
  "verify_signature L secret body signature =
     (let expected_signature = compute_signature L secret body
      in compare_digest expected_signature signature)"

record request =
  x_signature :: "string option"
  body :: bytes

definition invalid_signature :: py_exception where
  "invalid_signature = HTTPException 401 (Msg ''invalid signature'')"

text \<open>
  \<^verbatim>\<open>SignatureValidator.__call__\<close>. \<^verbatim>\<open>not signature\<close> holds for a missing header and
  for an empty one. The last branch of the case on the secret is not reachable: the secret
  is configured there.
\<close>

definition validate_signature :: "library \<Rightarrow> settings \<Rightarrow> request \<Rightarrow> py_exception + bytes" where
  "validate_signature L s req =
     (case x_signature req of
        None \<Rightarrow> Inl invalid_signature
      | Some signature \<Rightarrow>
          if signature = [] then Inl invalid_signature
          else if \<not> is_webhook_secret_configured s then Inl invalid_signature
          else (case webhook_secret s of
                  None \<Rightarrow> Inl invalid_signature
                | Some secret \<Rightarrow>
                    (case verify_signature L secret (body req) signature of
                       Inl e \<Rightarrow> Inl e
                     | Inr valid \<Rightarrow> if \<not> valid then Inl invalid_signature else Inr (body req))))"

section \<open>Request validation (\<^verbatim>\<open>app/schemas/message.py\<close>)\<close>

definition is_digit :: "char \<Rightarrow> bool" where
  "is_digit c = (CHR ''0'' \<le> c \<and> c \<le> CHR ''9'')"

text \<open>
  \<^verbatim>\<open>$\<close> without \<^verbatim>\<open>re.MULTILINE\<close>: the position is the end of the string, or it is just
  before a newline that ends the string.
\<close>

definition at_dollar :: "string \<Rightarrow> bool" where
  "at_dollar rest = (rest = [] \<or> rest = [CHR 0x0A])"

text \<open>
  \<^verbatim>\<open>\d{lo,hi}$\<close> on the rest of the string: one more digit while \<open>hi\<close> allows, or,
  once \<open>lo\<close> digits are read, the \<^verbatim>\<open>$\<close>. Below code point 256 the class \<^verbatim>\<open>\d\<close>
  is \<open>0\<close> to \<open>9\<close>.
\<close>

fun match_digits :: "nat \<Rightarrow> nat \<Rightarrow> string \<Rightarrow> bool" where
  "match_digits lo hi [] = (lo = 0 \<and> at_dollar [])"
| "match_digits lo hi (c # cs) =
     ((0 < hi \<and> is_digit c \<and> match_digits (lo - 1) (hi - 1) cs) \<or> (lo = 0 \<and> at_dollar (c # cs)))"

text \<open>\<^verbatim>\<open>E164_PATTERN.match(v)\<close> for the pattern \<^verbatim>\<open>^\+[1-9]\d{1,14}$\<close>.\<close>

definition E164_PATTERN_match :: "string \<Rightarrow> bool" where
  "E164_PATTERN_match v =
     (case v of
        p # d # rest \<Rightarrow> p = CHR ''+'' \<and> CHR ''1'' \<le> d \<and> d \<le> CHR ''9'' \<and> match_digits 1 14 rest
      | _ \<Rightarrow> False)"

text \<open>Python's truth value of what \<^verbatim>\<open>json.loads\<close> returns.\<close>

fun truthy :: "json \<Rightarrow> bool" where
  "truthy JNull = False"
| "truthy (JBool b) = b"
| "truthy (JInt n) = (n \<noteq> 0)"
| "truthy (JFloat x) = (x \<noteq> 0)"
| "truthy (JStr s) = (s \<noteq> [])"
| "truthy (JArr xs) = (xs \<noteq> [])"
| "truthy (JObj kvs) = (kvs \<noteq> [])"

datatype 'a validated = Valid 'a | ValueError | Raised

text \<open>
  \<^verbatim>\<open>validate_from_e164\<close> runs before Pydantic's own validation, on the raw value; on a
  truthy value that is not a string \<^verbatim>\<open>E164_PATTERN.match\<close> raises \<^verbatim>\<open>TypeError\<close>.
\<close>

definition validate_from_e164 :: "json \<Rightarrow> json validated" where
  "validate_from_e164 v =
     (if \<not> truthy v then ValueError
      else (case v of
              JStr s \<Rightarrow> if \<not> E164_PATTERN_match s then ValueError else Valid v
            | _ \<Rightarrow> Raised))"

text \<open>\<^verbatim>\<open>validate_to_e164\<close> runs after Pydantic's validation, on a string.\<close>

definition validate_to_e164 :: "string \<Rightarrow> string validated" where
  "validate_to_e164 v = (if v = [] \<or> \<not> E164_PATTERN_match v then ValueError else Valid v)"

definition endswith :: "string \<Rightarrow> string \<Rightarrow> bool" where
  "endswith s sfx = (length sfx \<le> length s \<and> drop (length s - length sfx) s = sfx)"

definition validate_ts_utc :: "json \<Rightarrow> json validated" where
  "validate_ts_utc v =
     (case v of
        JStr s \<Rightarrow> if \<not> endswith s ''Z'' then ValueError else Valid v
      | _ \<Rightarrow> Valid v)"

text \<open>Pydantic's validation of a \<^verbatim>\<open>str\<close> field with length bounds: no coercion to a string.\<close>

definition str_field :: "nat \<Rightarrow> nat option \<Rightarrow> json \<Rightarrow> string validated" where
  "str_field min_length max_length v =
     (case v of
        JStr s \<Rightarrow>
          if length s < min_length then ValueError
          else (case max_length of
                  None \<Rightarrow> Valid s
                | Some n \<Rightarrow> if n < length s then ValueError else Valid s)
      | _ \<Rightarrow> ValueError)"

record webhook_message_request =
  req_message_id :: string
  req_from :: string
  req_to :: string
  req_ts :: datetime
  req_text :: "string option"

text \<open>The five fields of \<^verbatim>\<open>WebhookMessageRequest\<close>, each from the value found under its key.\<close>

definition field_message_id :: "json option \<Rightarrow> string validated" where
  "field_message_id x = (case x of None \<Rightarrow> ValueError | Some v \<Rightarrow> str_field 1 (Some 255) v)"

definition field_from :: "json option \<Rightarrow> string validated" where
  "field_from x =
     (case x of
        None \<Rightarrow> ValueError
      | Some v \<Rightarrow>
          (case validate_from_e164 v of
             Valid w \<Rightarrow> str_field 0 None w
           | ValueError \<Rightarrow> ValueError
           | Raised \<Rightarrow> Raised))"

definition field_to :: "json option \<Rightarrow> string validated" where
  "field_to x =
     (case x of
        None \<Rightarrow> ValueError
      | Some v \<Rightarrow>
          (case str_field 0 None v of
             Valid s \<Rightarrow> validate_to_e164 s
           | ValueError \<Rightarrow> ValueError
           | Raised \<Rightarrow> Raised))"

definition field_ts :: "library \<Rightarrow> json option \<Rightarrow> datetime validated" where
  "field_ts L x =
     (case x of
        None \<Rightarrow> ValueError
      | Some v \<Rightarrow>
          (case validate_ts_utc v of
             Valid w \<Rightarrow> (case to_datetime L w of None \<Rightarrow> ValueError | Some t \<Rightarrow> Valid t)
           | ValueError \<Rightarrow> ValueError
           | Raised \<Rightarrow> Raised))"

definition field_text :: "json option \<Rightarrow> string option validated" where
  "field_text x =
     (case x of
        None \<Rightarrow> Valid None
      | Some JNull \<Rightarrow> Valid None
      | Some v \<Rightarrow>
          (case str_field 0 (Some 4096) v of
             Valid s \<Rightarrow> Valid (Some s)
           | ValueError \<Rightarrow> ValueError
           | Raised \<Rightarrow> Raised))"

text \<open>
  With \<^verbatim>\<open>populate_by_name\<close> the sender is read under its alias \<^verbatim>\<open>from\<close> and, when that
  key is absent, under the field's name \<^verbatim>\<open>from_\<close>.
\<close>

definition lookup_from :: "(string \<times> json) list \<Rightarrow> json option" where
  "lookup_from kvs =
     (case map_of kvs ''from'' of Some v \<Rightarrow> Some v | None \<Rightarrow> map_of kvs ''from_'')"

definition failed :: "'a validated \<Rightarrow> bool" where
  "failed r = (case r of Valid _ \<Rightarrow> False | _ \<Rightarrow> True)"

text \<open>
  \<^verbatim>\<open>WebhookMessageRequest.model_validate(data)\<close>: every field is validated and the
  failures are collected; the \<^verbatim>\<open>TypeError\<close> of the sender's validator ends the call.
\<close>

definition model_validate :: "library \<Rightarrow> json \<Rightarrow> validation_exn + webhook_message_request" where
  "model_validate L data =
     (case data of
        JObj kvs \<Rightarrow>
          (let r_id = field_message_id (map_of kvs ''message_id'');
               r_from = field_from (lookup_from kvs);
               r_to = field_to (map_of kvs ''to'');
               r_ts = field_ts L (map_of kvs ''ts'');
               r_text = field_text (map_of kvs ''text'')
           in if r_from = Raised then Inl MatchTypeError
              else (case (r_id, r_from, r_to, r_ts, r_text) of
                      (Valid mid, Valid f, Valid t, Valid time, Valid txt) \<Rightarrow>
                        Inr \<lparr>req_message_id = mid, req_from = f, req_to = t, req_ts = time,
                             req_text = txt\<rparr>
                    | _ \<Rightarrow>
                        Inl (ValidationError
                          ((if failed r_id then [''message_id''] else []) @
                           (if failed r_from then [''from''] else []) @
                           (if failed r_to then [''to''] else []) @
                           (if failed r_ts then [''ts''] else []) @
                           (if failed r_text then [''text''] else [])))))
      | _ \<Rightarrow> Inl (ValidationError []))"

section \<open>The message store (\<^verbatim>\<open>app/models/message.py\<close>) and ingestion (\<^verbatim>\<open>app/api/webhook.py\<close>)\<close>

record message =
  message_id :: string
  sender :: string
  recipient :: string
  ts :: int
  message_text :: "string option"
  created_at :: int

text \<open>
  The table is the list of its rows, in storage order. \<open>message_id\<close> is the primary key:
  a commit that would store a second row with a stored key raises \<^verbatim>\<open>IntegrityError\<close>.
  The columns \<open>ts\<close> and \<open>created_at\<close> hold a date and time without an offset.
\<close>

type_synonym db = "message list"

definition primary_key_ok :: "db \<Rightarrow> bool" where
  "primary_key_ok rows = distinct (map message_id rows)"

definition query_first_by_id :: "db \<Rightarrow> string \<Rightarrow> message option" where
  "query_first_by_id rows mid = find (\<lambda>m. message_id m = mid) rows"

definition add_commit :: "db \<Rightarrow> message \<Rightarrow> py_exception + db" where
  "add_commit rows m =
     (if list_ex (\<lambda>r. message_id r = message_id m) rows then Inl IntegrityError
      else Inr (rows @ [m]))"

text \<open>
  \<^verbatim>\<open>ingest_message\<close>, given the body the signature dependency returned. \<open>now\<close> is the
  value of \<^verbatim>\<open>datetime.utcnow\<close> that the column default of \<open>created_at\<close> reads. Of the
  exceptions of \<^verbatim>\<open>json.loads\<close> the handler catches \<^verbatim>\<open>JSONDecodeError\<close>, of those of the
  commit \<^verbatim>\<open>IntegrityError\<close>; it catches every exception of the validation.
\<close>

definition ingest_message :: "library \<Rightarrow> int \<Rightarrow> bytes \<Rightarrow> db \<Rightarrow> (py_exception + response) \<times> db" where
  "ingest_message L now validated_body rows =
     (case json_loads L validated_body of
        Inl e \<Rightarrow>
          if e = JSONDecodeError then (Inl (HTTPException 422 (Msg ''Invalid JSON'')), rows)
          else (Inl e, rows)
      | Inr data \<Rightarrow>
          (case model_validate L data of
             Inl e \<Rightarrow> (Inl (HTTPException 422 (Str e)), rows)
           | Inr message_data \<Rightarrow>
               (case query_first_by_id rows (req_message_id message_data) of
                  Some existing \<Rightarrow> (Inr ok_response, rows)
                | None \<Rightarrow>
                    (let m = \<lparr>message_id = req_message_id message_data,
                              sender = req_from message_data,
                              recipient = req_to message_data,
                              ts = wall_clock (req_ts message_data),
                              message_text = req_text message_data,
                              created_at = now\<rparr>
                     in case add_commit rows m of
                          Inr rows' \<Rightarrow> (Inr ok_response, rows')
                        | Inl e \<Rightarrow>
                            if e = IntegrityError then (Inr ok_response, rows)
                            else (Inl e, rows)))))"

text \<open>\<^verbatim>\<open>POST /webhook\<close>: the signature dependency, then the handler.\<close>

definition post_webhook :: "library \<Rightarrow> settings \<Rightarrow> int \<Rightarrow> request \<Rightarrow> db \<Rightarrow> response \<times> db" where
  "post_webhook L s now req rows =
     (case validate_signature L s req of
        Inl e \<Rightarrow> (exception_response e, rows)
      | Inr validated_body \<Rightarrow>
          (case ingest_message L now validated_body rows of
             (Inl e, rows') \<Rightarrow> (exception_response e, rows')
           | (Inr r, rows') \<Rightarrow> (r, rows')))"

section \<open>Listing (\<^verbatim>\<open>app/api/messages.py\<close>)\<close>

text \<open>
  SQLite's \<^verbatim>\<open>lower()\<close> and its \<^verbatim>\<open>LIKE\<close> fold the 26 ASCII letters only.
\<close>

definition sql_lower_char :: "char \<Rightarrow> char" where
  "sql_lower_char c =
     (if CHR ''A'' \<le> c \<and> c \<le> CHR ''Z'' then char_of ((of_char c :: nat) + 32) else c)"

definition sql_lower :: "string \<Rightarrow> string" where
  "sql_lower s = map sql_lower_char s"

text \<open>
  SQLite's \<^verbatim>\<open>patternCompare\<close> for \<^verbatim>\<open>LIKE\<close> with no \<^verbatim>\<open>ESCAPE\<close>, on a pattern and a text
  without a NUL character: \<^verbatim>\<open>%\<close> stands for any run of characters, \<^verbatim>\<open>_\<close> for any one
  character, and every other character for itself, whatever its case.
\<close>

fun pattern_compare :: "string \<Rightarrow> string \<Rightarrow> bool" where
  "pattern_compare [] [] = True"
| "pattern_compare [] (c # cs) = False"
| "pattern_compare (p # ps) [] = (p = CHR ''%'' \<and> pattern_compare ps [])"
| "pattern_compare (p # ps) (c # cs) =
     (if p = CHR ''%'' then pattern_compare ps (c # cs) \<or> pattern_compare (p # ps) cs
      else (p = CHR ''_'' \<or> sql_lower_char p = sql_lower_char c) \<and> pattern_compare ps cs)"

text \<open>
  \<^verbatim>\<open>text LIKE pattern\<close>: SQLite reads the pattern and the text as C strings, each of
  which ends before its first NUL character.
\<close>

definition c_string :: "string \<Rightarrow> string" where
  "c_string s = takeWhile (\<lambda>c. c \<noteq> CHR 0x00) s"

definition sql_like :: "string \<Rightarrow> string \<Rightarrow> bool" where
  "sql_like pattern t = pattern_compare (c_string pattern) (c_string t)"

text \<open>
  \<^verbatim>\<open>column.ilike(pattern)\<close>, which SQLAlchemy renders for SQLite as
  \<^verbatim>\<open>lower(column) LIKE lower(pattern)\<close>. On a \<^verbatim>\<open>NULL\<close> column the comparison is
  \<^verbatim>\<open>NULL\<close>, and the row is not selected.
\<close>

definition ilike :: "string option \<Rightarrow> string \<Rightarrow> bool" where
  "ilike column pattern =
     (case column of None \<Rightarrow> False | Some t \<Rightarrow> sql_like (sql_lower pattern) (sql_lower t))"

text \<open>
  SQLite refuses a \<^verbatim>\<open>LIKE\<close> pattern of more than 50000 bytes, whatever the text is,
  also a \<^verbatim>\<open>NULL\<close> one: the statement fails with \<open>LIKE or GLOB pattern too complex\<close>.
\<close>

definition SQLITE_MAX_LIKE_PATTERN_LENGTH :: nat where
  "SQLITE_MAX_LIKE_PATTERN_LENGTH = 50000"

definition like_raises :: "string \<Rightarrow> bool" where
  "like_raises pattern =
     (SQLITE_MAX_LIKE_PATTERN_LENGTH < length (encode_utf8 (sql_lower pattern)))"

record message_response =
  r_message_id :: string
  r_from :: string
  r_to :: string
  r_ts :: int
  r_text :: "string option"
  r_created_at :: int

definition to_response :: "message \<Rightarrow> message_response" where
  "to_response msg =
     \<lparr>r_message_id = message_id msg, r_from = sender msg, r_to = recipient msg, r_ts = ts msg,
      r_text = message_text msg, r_created_at = created_at msg\<rparr>"

record messages_list_response =
  resp_data :: "message_response list"
  resp_total :: nat
  resp_limit :: nat
  resp_offset :: nat

text \<open>
  The three conditional \<^verbatim>\<open>.filter\<close> calls, which the handler applies alike to the
  query and to the count query. \<^verbatim>\<open>if from_:\<close> and \<^verbatim>\<open>if q:\<close> test the truth value:
  \<^verbatim>\<open>None\<close> and the empty string are false. A \<^verbatim>\<open>datetime\<close> is always true. The
  comparison \<^verbatim>\<open>Message.ts >= since\<close> is between the stored date and time and the date
  and time of \<open>since\<close>, which is bound to the statement without its offset.
\<close>

definition apply_filters :: "db \<Rightarrow> string option \<Rightarrow> datetime option \<Rightarrow> string option \<Rightarrow> db" where
  "apply_filters query from' since q =
     (let query = (case from' of
                     Some f \<Rightarrow> if f \<noteq> [] then filter (\<lambda>m. sender m = f) query else query
                   | None \<Rightarrow> query);
          query = (case since of
                     Some t \<Rightarrow> filter (\<lambda>m. wall_clock t \<le> ts m) query
                   | None \<Rightarrow> query);
          query = (case q of
                     Some qs \<Rightarrow>
                       if qs \<noteq> []
                       then (let search_pattern = ''%'' @ qs @ ''%''
                             in filter (\<lambda>m. ilike (message_text m) search_pattern) query)
                       else query
                   | None \<Rightarrow> query)
      in query)"

text \<open>
  \<^verbatim>\<open>list_messages\<close>, where its two statements execute. The framework has checked
  \<open>1 \<le> limit \<le> 100\<close> and \<open>0 \<le> offset\<close> before the handler runs.
  \<^verbatim>\<open>ORDER BY ts ASC, message_id ASC\<close> sorts on the pair.
\<close>

definition list_messages ::
    "db \<Rightarrow> nat \<Rightarrow> nat \<Rightarrow> string option \<Rightarrow> datetime option \<Rightarrow> string option \<Rightarrow>
       messages_list_response" where
  "list_messages rows limit offset from' since q =
     (let query = apply_filters rows from' since q;
          count_query = apply_filters rows from' since q;
          total = length count_query;
          query = sort_key (\<lambda>m. (ts m, message_id m)) query;
          query = take limit (drop offset query);
          messages = query;
          data = map to_response messages
      in \<lparr>resp_data = data, resp_total = total, resp_limit = limit, resp_offset = offset\<rparr>)"

text \<open>
  What executing a statement with the three filters gives: the selected rows, or the
  error of \<^verbatim>\<open>LIKE\<close>. SQLite tests the conditions of a row in the order of the
  \<^verbatim>\<open>WHERE\<close> clause and stops at the first that fails, so \<^verbatim>\<open>LIKE\<close> is evaluated,
  and fails on a pattern that is too long, when some row passes the filters on the
  sender and on the timestamp.
\<close>

definition execute_filters ::
    "db \<Rightarrow> string option \<Rightarrow> datetime option \<Rightarrow> string option \<Rightarrow> py_exception + db" where
  "execute_filters rows from' since q =
     (case q of
        Some qs \<Rightarrow>
          if qs \<noteq> [] \<and> like_raises (''%'' @ qs @ ''%'') \<and> apply_filters rows from' since None \<noteq> []
          then Inl OperationalError
          else Inr (apply_filters rows from' since q)
      | None \<Rightarrow> Inr (apply_filters rows from' since q))"

text \<open>
  \<^verbatim>\<open>GET /messages\<close>: the handler \<^verbatim>\<open>list_messages\<close> with the error that its first
  statement, the count, may raise. The handler catches nothing, and the framework answers
  an exception with \<open>exception_response\<close>, a 500.
\<close>

definition get_messages ::
    "db \<Rightarrow> nat \<Rightarrow> nat \<Rightarrow> string option \<Rightarrow> datetime option \<Rightarrow> string option \<Rightarrow>
       py_exception + messages_list_response" where
  "get_messages rows limit offset from' since q =
     (case execute_filters rows from' since q of
        Inl e \<Rightarrow> Inl e
      | Inr selected \<Rightarrow> Inr (list_messages rows limit offset from' since q))"

section \<open>Metrics (\<^verbatim>\<open>app/api/metrics.py\<close>)\<close>

record metrics =
  http_requests_total :: "string \<rightharpoonup> nat"
  http_request_duration_seconds :: "string \<rightharpoonup> real list"
  startup_time :: "real option"

text \<open>The module's \<^verbatim>\<open>_metrics\<close> when the process starts.\<close>

definition initial_metrics :: metrics where
  "initial_metrics =
     \<lparr>http_requests_total = Map.empty, http_request_duration_seconds = Map.empty,
      startup_time = None\<rparr>"

fun str_nat :: "nat \<Rightarrow> string" where
  "str_nat n =
     (if n < 10 then [char_of (48 + n)] else str_nat (n div 10) @ [char_of (48 + n mod 10)])"

text \<open>
  \<^verbatim>\<open>record_request\<close>: the counter of the key goes up by one; the duration is appended to
  the key's list, and a list longer than 1000 is replaced by its last 1000 elements
  (\<^verbatim>\<open>durations[-1000:]\<close>).
\<close>

definition record_request :: "metrics \<Rightarrow> string \<Rightarrow> string \<Rightarrow> nat \<Rightarrow> real \<Rightarrow> metrics" where
  "record_request M method path status_code' duration =
     (let key = method @ ''_'' @ path @ ''_'' @ str_nat status_code';
          totals = (http_requests_total M)
                     (key \<mapsto> (case http_requests_total M key of None \<Rightarrow> 0 | Some n \<Rightarrow> n) + 1);
          duration_key = method @ ''_'' @ path;
          durations =
            (case http_request_duration_seconds M duration_key of None \<Rightarrow> [] | Some ds \<Rightarrow> ds)
              @ [duration];
          kept = (if length durations > 1000 then drop (length durations - 1000) durations
                  else durations)
      in M\<lparr>http_requests_total := totals,
           http_request_duration_seconds :=
             (http_request_duration_seconds M)(duration_key \<mapsto> kept)\<rparr>)"

text \<open>
  The vocabulary of the statements about the buffers: the last \<open>n\<close> elements of a list,
  a run of \<^verbatim>\<open>record_request\<close> calls (method, path, status code, duration), the durations
  recorded under a key in such a run, the list stored under a key, and the bound.
\<close>

definition lastn :: "nat \<Rightarrow> 'a list \<Rightarrow> 'a list" where
  "lastn n xs = drop (length xs - n) xs"

type_synonym call = "string \<times> string \<times> nat \<times> real"

fun record_requests :: "metrics \<Rightarrow> call list \<Rightarrow> metrics" where
  "record_requests M [] = M"
| "record_requests M ((method, path, status, duration) # calls) =
     record_requests (record_request M method path status duration) calls"

definition samples :: "string \<Rightarrow> call list \<Rightarrow> real list" where
  "samples k calls =
     map (\<lambda>(method, path, status, duration). duration)
       (filter (\<lambda>(method, path, status, duration). method @ ''_'' @ path = k) calls)"

definition buffer :: "metrics \<Rightarrow> string \<Rightarrow> real list" where
  "buffer M k = (case http_request_duration_seconds M k of None \<Rightarrow> [] | Some ds \<Rightarrow> ds)"

definition buffers_bounded :: "metrics \<Rightarrow> bool" where
  "buffers_bounded M =
     (\<forall>k ds. http_request_duration_seconds M k = Some ds \<longrightarrow> length ds \<le> 1000)"

section \<open>Vocabulary of the statements\<close>

text \<open>The pair a listing is ordered by, on a stored row and on a returned message.\<close>

definition order_key :: "message \<Rightarrow> int \<times> string" where
  "order_key m = (ts m, message_id m)"

definition response_key :: "message_response \<Rightarrow> int \<times> string" where
  "response_key r = (r_ts r, r_message_id r)"


text \<open>
  The instant of a \<^verbatim>\<open>datetime\<close>: its date and time less its offset, and the date and time
  as they are when it has no offset.
\<close>

definition instant :: "datetime \<Rightarrow> int" where
  "instant d = wall_clock d - (case utcoffset d of None \<Rightarrow> 0 | Some off \<Rightarrow> off)"

text \<open>
  The specification's reading of the \<open>q\<close> filter: the text contains \<open>q\<close> as a contiguous
  substring, letters compared without regard to case. \<open>lower_char\<close> is the lower case of
  a character below code point 256, as \<^verbatim>\<open>str.lower\<close> gives it.
\<close>

definition lower_char :: "char \<Rightarrow> char" where
  "lower_char c =
     (let n = (of_char c :: nat)
      in if (65 \<le> n \<and> n \<le> 90) \<or> (192 \<le> n \<and> n \<le> 222 \<and> n \<noteq> 215) then char_of (n + 32) else c)"

definition contains_ci :: "string \<Rightarrow> string \<Rightarrow> bool" where
  "contains_ci q t = sublist (map lower_char q) (map lower_char t)"






text \<open>
  The specification's reading of the phone number pattern: the whole string is a plus
  sign, a digit from 1 to 9, and one to fourteen further digits.
\<close>

definition e164_full_match :: "string \<Rightarrow> bool" where
  "e164_full_match v =
     (case v of
        p # d # rest \<Rightarrow>
          p = CHR ''+'' \<and> CHR ''1'' \<le> d \<and> d \<le> CHR ''9'' \<and>
          1 \<le> length rest \<and> length rest \<le> 14 \<and> list_all is_digit rest
      | _ \<Rightarrow> False)"

text \<open>The number of stored rows with a given \<open>message_id\<close>.\<close>

definition stored_count :: "string \<Rightarrow> db \<Rightarrow> nat" where
  "stored_count mid rows = length (filter (\<lambda>m. message_id m = mid) rows)"

section \<open>Example inputs\<close>

text \<open>
  The examples instantiate the library: \<open>example_hmac\<close> stands in for HMAC-SHA256 (32
  bytes that depend on the key and the message), \<^verbatim>\<open>json.loads\<close> parses the one body
  of the example, and the \<^verbatim>\<open>datetime\<close> coercion at the two values it meets: an ISO-8601
  string and a Unix time in seconds, both 10:00:00 UTC on 15 January 2025. The secret is
  the one of \<^verbatim>\<open>tests/test_api.py\<close>, and \<open>signed\<close> is its \<^verbatim>\<open>sign_payload\<close>.
\<close>

definition example_hmac :: "bytes \<Rightarrow> bytes \<Rightarrow> bytes" where
  "example_hmac key msg = take 32 (key @ msg @ replicate 32 (CHR 0x00))"

definition example_library :: "bytes \<Rightarrow> json \<Rightarrow> library" where
  "example_library raw data =
     \<lparr>hmac_sha256 = example_hmac,
      json_loads = (\<lambda>b. if b = raw then Inr data else Inl JSONDecodeError),
      to_datetime =
        [JStr ''2025-01-15T10:00:00Z'' \<mapsto> \<lparr>wall_clock = 1736935200, utcoffset = Some 0\<rparr>,
         JInt 1736935200 \<mapsto> \<lparr>wall_clock = 1736935200, utcoffset = Some 0\<rparr>]\<rparr>"

definition example_settings :: settings where
  "example_settings = \<lparr>webhook_secret = Some ''test-secret-key-12345''\<rparr>"

definition signed :: "library \<Rightarrow> bytes \<Rightarrow> request" where
  "signed L raw = \<lparr>x_signature = Some (compute_signature L ''test-secret-key-12345'' raw), body = raw\<rparr>"

text \<open>The payload of the specification's example, and what \<^verbatim>\<open>json.loads\<close> makes of it.\<close>

definition example_body :: bytes where
  \<open>example_body = ''{"message_id":"m1","from":"+919876543210","to":"+14155550100","ts":"2025-01-15T10:00:00Z","text":"Hello"}''\<close>

definition example_data :: json where
  "example_data =
     JObj [(''message_id'', JStr ''m1''), (''from'', JStr ''+919876543210''),
           (''to'', JStr ''+14155550100''), (''ts'', JStr ''2025-01-15T10:00:00Z''),
           (''text'', JStr ''Hello'')]"

text \<open>A sender that ends in a newline, written \<^verbatim>\<open>\n\<close> in the JSON text.\<close>

definition newline_body :: bytes where
  \<open>newline_body = ''{"message_id":"m2","from":"+919876543210'' @ [CHR 0x5C] @ ''n","to":"+14155550100","ts":"2025-01-15T10:00:00Z"}''\<close>

definition newline_data :: json where
  "newline_data =
     JObj [(''message_id'', JStr ''m2''), (''from'', JStr (''+919876543210'' @ [CHR 0x0A])),
           (''to'', JStr ''+14155550100''), (''ts'', JStr ''2025-01-15T10:00:00Z'')]"

text \<open>A timestamp given as a JSON number.\<close>

definition numeric_ts_body :: bytes where
  \<open>numeric_ts_body = ''{"message_id":"m3","from":"+919876543210","to":"+14155550100","ts":1736935200}''\<close>

definition numeric_ts_data :: json where
  "numeric_ts_data =
     JObj [(''message_id'', JStr ''m3''), (''from'', JStr ''+919876543210''),
           (''to'', JStr ''+14155550100''), (''ts'', JInt 1736935200)]"

text \<open>The timestamp with an offset of \<^verbatim>\<open>tests/test_api.py\<close>.\<close>

definition offset_ts_body :: bytes where
  \<open>offset_ts_body = ''{"message_id":"m3","from":"+919876543210","to":"+14155550100","ts":"2025-01-15T10:00:00+05:30"}''\<close>

definition offset_ts_kvs :: "(string \<times> json) list" where
  "offset_ts_kvs =
     [(''message_id'', JStr ''m3''), (''from'', JStr ''+919876543210''),
      (''to'', JStr ''+14155550100''), (''ts'', JStr ''2025-01-15T10:00:00+05:30'')]"

text \<open>Three stored rows, not in the order of their timestamps; the first has no text.\<close>

definition example_rows :: db where
  "example_rows =
     [\<lparr>message_id = ''msg-2'', sender = ''+919876543220'', recipient = ''+14155550100'',
       ts = 1736935320, message_text = None, created_at = 1736935321\<rparr>,
      \<lparr>message_id = ''msg-0'', sender = ''+919876543200'', recipient = ''+14155550100'',
       ts = 1736935200, message_text = Some ''Message 0'', created_at = 1736935201\<rparr>,
      \<lparr>message_id = ''msg-1'', sender = ''+919876543210'', recipient = ''+14155550100'',
       ts = 1736935260, message_text = Some ''Hello World'', created_at = 1736935261\<rparr>]"

section \<open>Signatures\<close>

lemma hex_digit_ascii: "n < 16 \<Longrightarrow> (of_char (hex_digit n) :: nat) < 128"
proof -
  assume "n < 16"
  then have "hex_digit n \<in> set ''0123456789abcdef''"
    unfolding hex_digit_def by (intro nth_mem) simp
  then show ?thesis by auto
qed

lemma is_ascii_hexdigest: "is_ascii (hexdigest d)"
  unfolding is_ascii_def hexdigest_def
proof (induction d)
  case Nil
  show ?case by simp
next
  case (Cons b d)
  have "(of_char b :: nat) < 256" by simp
  then have "(of_char b :: nat) div 16 < 16" by arith
  with Cons show ?case by (simp add: hex_digit_ascii)
qed

lemma length_hexdigest: "length (hexdigest d) = 2 * length d"
  unfolding hexdigest_def by (induction d) simp_all

lemma is_ascii_compute_signature: "is_ascii (compute_signature L secret raw)"
  by (simp add: compute_signature_def is_ascii_hexdigest)

text \<open>
  \<^verbatim>\<open>verify_signature\<close> returns \<^verbatim>\<open>True\<close> exactly on the digest. On any other ASCII string
  it returns \<^verbatim>\<open>False\<close>; on a string with a non-ASCII character it does not return.
\<close>

lemma verify_signature_iff:
  "verify_signature L secret raw signature = Inr True \<longleftrightarrow>
     signature = compute_signature L secret raw"
  by (auto simp: verify_signature_def compare_digest_def is_ascii_compute_signature)

lemma verify_signature_ascii:
  "is_ascii signature \<Longrightarrow>
   verify_signature L secret raw signature = Inr (signature = compute_signature L secret raw)"
  by (auto simp: verify_signature_def compare_digest_def is_ascii_compute_signature)

lemma verify_signature_non_ascii:
  "\<not> is_ascii signature \<Longrightarrow> verify_signature L secret raw signature = Inl TypeError"
  by (auto simp: verify_signature_def compare_digest_def)

lemma validate_signature_correct:
  assumes "webhook_secret s = Some secret" "secret \<noteq> []"
    and "hmac_sha256 L (encode_utf8 secret) (body req) \<noteq> []"
    and "x_signature req = Some (compute_signature L secret (body req))"
  shows "validate_signature L s req = Inr (body req)"
proof -
  have "compute_signature L secret (body req) \<noteq> []"
    using assms(3) length_hexdigest[of "hmac_sha256 L (encode_utf8 secret) (body req)"]
    by (auto simp: compute_signature_def)
  moreover have
    "verify_signature L secret (body req) (compute_signature L secret (body req)) = Inr True"
    by (simp add: verify_signature_iff)
  ultimately show ?thesis
    using assms(1,2,4) by (simp add: validate_signature_def is_webhook_secret_configured_def)
qed

text \<open>
  The three failures the handler raises itself are one and the same exception: a missing
  or empty header, a secret that is not configured, and an ASCII signature that differs
  from the digest.
\<close>

lemma validate_signature_missing:
  "x_signature req = None \<or> x_signature req = Some [] \<Longrightarrow>
   validate_signature L s req = Inl invalid_signature"
  by (auto simp: validate_signature_def)

lemma validate_signature_unconfigured:
  "\<not> is_webhook_secret_configured s \<Longrightarrow> validate_signature L s req = Inl invalid_signature"
  by (simp add: validate_signature_def split: option.splits)

lemma validate_signature_ascii_mismatch:
  assumes "x_signature req = Some signature" "is_ascii signature"
    and "webhook_secret s = Some secret"
    and "signature \<noteq> compute_signature L secret (body req)"
  shows "validate_signature L s req = Inl invalid_signature"
  using assms by (simp add: validate_signature_def verify_signature_ascii)

lemma exception_response_invalid_signature:
  "exception_response invalid_signature = Response 401 (DetailJson (Msg ''invalid signature''))"
  by (simp add: invalid_signature_def exception_response_def)

lemma validate_signature_non_ascii:
  assumes "x_signature req = Some signature" "\<not> is_ascii signature"
    and "webhook_secret s = Some secret" "secret \<noteq> []"
  shows "validate_signature L s req = Inl TypeError"
proof -
  from assms(2) have "signature \<noteq> []" by (auto simp: is_ascii_def)
  with assms show ?thesis
    by (simp add: validate_signature_def is_webhook_secret_configured_def
        verify_signature_non_ascii)
qed

text \<open>
  Two cases of \<^verbatim>\<open>tests/test_api.py\<close>: a request without the header, and one with the
  header \<open>invalid-signature\<close>, which no digest equals since its length is odd.
\<close>

lemma test_webhook_requires_signature:
  "post_webhook L example_settings now \<lparr>x_signature = None, body = raw\<rparr> rows =
     (Response 401 (DetailJson (Msg ''invalid signature'')), rows)"
  by (simp add: post_webhook_def validate_signature_missing exception_response_invalid_signature)

lemma test_webhook_rejects_invalid_signature:
  "post_webhook L example_settings now \<lparr>x_signature = Some ''invalid-signature'', body = raw\<rparr> rows =
     (Response 401 (DetailJson (Msg ''invalid signature'')), rows)"
proof -
  have "odd (length ''invalid-signature'')"
    by simp
  moreover have "even (length (compute_signature L ''test-secret-key-12345'' raw))"
    by (simp add: compute_signature_def length_hexdigest)
  ultimately have "''invalid-signature'' \<noteq> compute_signature L ''test-secret-key-12345'' raw"
    by metis
  moreover have "is_ascii ''invalid-signature''"
    by (simp add: is_ascii_def)
  ultimately have
    "validate_signature L example_settings \<lparr>x_signature = Some ''invalid-signature'', body = raw\<rparr> =
       Inl invalid_signature"
    by (intro validate_signature_ascii_mismatch[where secret = "''test-secret-key-12345''"])
      (simp_all add: example_settings_def)
  then show ?thesis
    by (simp add: post_webhook_def exception_response_invalid_signature)
qed

text \<open>The requests of the examples pass the signature check.\<close>

lemma example_hmac_length: "length (example_hmac key msg) = 32"
  by (simp add: example_hmac_def)

lemma validate_signature_signed:
  "validate_signature (example_library raw data) example_settings
     (signed (example_library raw data) raw) = Inr raw"
proof -
  have "hmac_sha256 (example_library raw data) (encode_utf8 ''test-secret-key-12345'') raw \<noteq> []"
    using example_hmac_length[of "encode_utf8 ''test-secret-key-12345''" raw]
    by (auto simp: example_library_def)
  then show ?thesis
    using validate_signature_correct[of example_settings "''test-secret-key-12345''"
        "example_library raw data" "signed (example_library raw data) raw"]
    by (simp add: example_settings_def signed_def)
qed

text \<open>
  C2, at the header value that consists of the one byte \<open>0xE9\<close>. The value is not the
  digest, \<^verbatim>\<open>verify_signature\<close> raises \<^verbatim>\<open>TypeError\<close> on it instead of returning
  \<^verbatim>\<open>False\<close>, and \<^verbatim>\<open>POST /webhook\<close> answers 500, not 401; nothing is stored.
\<close>

theorem non_ascii_signature_500:
  "[CHR 0xE9] \<noteq> compute_signature L ''test-secret-key-12345'' raw \<and>
   verify_signature L ''test-secret-key-12345'' raw [CHR 0xE9] = Inl TypeError \<and>
   post_webhook L example_settings now \<lparr>x_signature = Some [CHR 0xE9], body = raw\<rparr> rows =
     (Response 500 (PlainText ''Internal Server Error''), rows)"
proof -
  have n: "\<not> is_ascii [CHR 0xE9]"
    by (simp add: is_ascii_def)
  have "is_ascii (compute_signature L ''test-secret-key-12345'' raw)"
    by (rule is_ascii_compute_signature)
  with n have "[CHR 0xE9] \<noteq> compute_signature L ''test-secret-key-12345'' raw"
    by metis
  moreover have "verify_signature L ''test-secret-key-12345'' raw [CHR 0xE9] = Inl TypeError"
    using n by (rule verify_signature_non_ascii)
  moreover have
    "validate_signature L example_settings \<lparr>x_signature = Some [CHR 0xE9], body = raw\<rparr> =
       Inl TypeError"
    using n
    by (intro validate_signature_non_ascii[where secret = "''test-secret-key-12345''"])
      (simp_all add: example_settings_def)
  ultimately show ?thesis
    by (simp add: post_webhook_def exception_response_def)
qed

text \<open>
  C3, at the same header value. With no secret configured the answer is the 401 with
  detail \<open>invalid signature\<close>; with a secret configured, where the signature does not match,
  the answer is a 500. The caller who sends this header learns whether a secret is
  configured.
\<close>

theorem auth_failures_distinguishable:
  "fst (post_webhook L \<lparr>webhook_secret = None\<rparr> now \<lparr>x_signature = Some [CHR 0xE9], body = raw\<rparr> rows) =
     Response 401 (DetailJson (Msg ''invalid signature'')) \<and>
   fst (post_webhook L example_settings now \<lparr>x_signature = Some [CHR 0xE9], body = raw\<rparr> rows) =
     Response 500 (PlainText ''Internal Server Error'')"
proof -
  have n: "\<not> is_ascii [CHR 0xE9]"
    by (simp add: is_ascii_def)
  have "validate_signature L \<lparr>webhook_secret = None\<rparr> \<lparr>x_signature = Some [CHR 0xE9], body = raw\<rparr> =
      Inl invalid_signature"
    by (intro validate_signature_unconfigured) (simp add: is_webhook_secret_configured_def)
  moreover have
    "validate_signature L example_settings \<lparr>x_signature = Some [CHR 0xE9], body = raw\<rparr> =
       Inl TypeError"
    using n
    by (intro validate_signature_non_ascii[where secret = "''test-secret-key-12345''"])
      (simp_all add: example_settings_def)
  moreover have "exception_response TypeError = Response 500 (PlainText ''Internal Server Error'')"
    by (simp add: exception_response_def)
  ultimately show ?thesis
    by (simp add: post_webhook_def exception_response_invalid_signature)
qed

section \<open>Phone numbers\<close>

text \<open>
  What \<^verbatim>\<open>\d{lo,hi}$\<close> matches: between \<open>lo\<close> and \<open>hi\<close> digits, followed by nothing
  or by one final newline.
\<close>

lemma match_digits_iff:
  "match_digits lo hi s \<longleftrightarrow>
     (\<exists>ds rest. s = ds @ rest \<and> list_all is_digit ds \<and> lo \<le> length ds \<and> length ds \<le> hi \<and>
        at_dollar rest)"
proof (induction s arbitrary: lo hi)
  case Nil
  show ?case by (auto simp: at_dollar_def)
next
  case (Cons c cs)
  show ?case (is "?L \<longleftrightarrow> ?R")
  proof
    assume ?L
    then consider (digit) "0 < hi" "is_digit c" "match_digits (lo - 1) (hi - 1) cs"
      | (stop) "lo = 0" "at_dollar (c # cs)"
      by auto
    then show ?R
    proof cases
      case digit
      then obtain ds rest where r: "cs = ds @ rest" "list_all is_digit ds" "lo - 1 \<le> length ds"
          "length ds \<le> hi - 1" "at_dollar rest"
        using Cons.IH[of "lo - 1" "hi - 1"] by blast
      have "c # cs = (c # ds) @ rest \<and> list_all is_digit (c # ds) \<and> lo \<le> length (c # ds) \<and>
            length (c # ds) \<le> hi \<and> at_dollar rest"
        using r digit by auto
      then show ?thesis by blast
    next
      case stop
      then have "c # cs = [] @ (c # cs) \<and> list_all is_digit [] \<and> lo \<le> length ([] :: string) \<and>
            length ([] :: string) \<le> hi \<and> at_dollar (c # cs)"
        by simp
      then show ?thesis by blast
    qed
  next
    assume ?R
    then obtain ds rest where r: "c # cs = ds @ rest" "list_all is_digit ds" "lo \<le> length ds"
        "length ds \<le> hi" "at_dollar rest"
      by blast
    show ?L
    proof (cases ds)
      case Nil
      with r have "lo = 0" "at_dollar (c # cs)" by simp_all
      then show ?thesis by simp
    next
      case (Cons d ds')
      with r have "cs = ds' @ rest \<and> list_all is_digit ds' \<and> lo - 1 \<le> length ds' \<and>
          length ds' \<le> hi - 1 \<and> at_dollar rest" and "is_digit c" "0 < hi"
        by auto
      then have "match_digits (lo - 1) (hi - 1) cs" "is_digit c" "0 < hi"
        using Cons.IH[of "lo - 1" "hi - 1"] by blast+
      then show ?thesis by simp
    qed
  qed
qed

lemma not_digit_newline: "\<not> is_digit (CHR 0x0A)"
  by (simp add: is_digit_def less_eq_char_def)

text \<open>
  Hence the pattern of the source accepts the strings of the specification's pattern and,
  besides them, each such string followed by one newline.
\<close>

lemma E164_PATTERN_match_iff:
  "E164_PATTERN_match v \<longleftrightarrow>
     e164_full_match v \<or> (\<exists>u. v = u @ [CHR 0x0A] \<and> e164_full_match u)"
proof (cases v)
  case Nil
  then show ?thesis by (simp add: E164_PATTERN_match_def e164_full_match_def)
next
  case (Cons p v')
  show ?thesis
  proof (cases v')
    case Nil
    have "\<not> e164_full_match u" if "[p] = u @ [CHR 0x0A]" for u
      using that by (cases u) (simp_all add: e164_full_match_def)
    with Nil Cons show ?thesis
      by (auto simp: E164_PATTERN_match_def e164_full_match_def)
  next
    case (Cons d rest)
    note v = \<open>v = p # v'\<close> Cons
    let ?head = "p = CHR ''+'' \<and> CHR ''1'' \<le> d \<and> d \<le> CHR ''9''"
    have full: "e164_full_match (p # d # r) \<longleftrightarrow>
        ?head \<and> 1 \<le> length r \<and> length r \<le> 14 \<and> list_all is_digit r" for r
      by (simp add: e164_full_match_def)
    have m: "match_digits 1 14 rest \<longleftrightarrow>
        (1 \<le> length rest \<and> length rest \<le> 14 \<and> list_all is_digit rest) \<or>
        (\<exists>r. rest = r @ [CHR 0x0A] \<and> 1 \<le> length r \<and> length r \<le> 14 \<and> list_all is_digit r)"
      unfolding match_digits_iff at_dollar_def by auto
    have nl: "(\<exists>u. v = u @ [CHR 0x0A] \<and> e164_full_match u) \<longleftrightarrow>
        ?head \<and> (\<exists>r. rest = r @ [CHR 0x0A] \<and> 1 \<le> length r \<and> length r \<le> 14 \<and> list_all is_digit r)"
    proof
      assume "\<exists>u. v = u @ [CHR 0x0A] \<and> e164_full_match u"
      then obtain u where u: "v = u @ [CHR 0x0A]" "e164_full_match u" by blast
      from u(2) obtain p' d' r where u': "u = p' # d' # r"
        by (auto simp: e164_full_match_def split: list.splits)
      with u v have "p' = p" "d' = d" "rest = r @ [CHR 0x0A]" by simp_all
      with u(2) u' show "?head \<and> (\<exists>r. rest = r @ [CHR 0x0A] \<and> 1 \<le> length r \<and> length r \<le> 14 \<and> list_all is_digit r)"
        by (auto simp: full)
    next
      assume "?head \<and> (\<exists>r. rest = r @ [CHR 0x0A] \<and> 1 \<le> length r \<and> length r \<le> 14 \<and> list_all is_digit r)"
      then obtain r where r: ?head "rest = r @ [CHR 0x0A]" "1 \<le> length r" "length r \<le> 14" "list_all is_digit r"
        by blast
      then have "v = (p # d # r) @ [CHR 0x0A] \<and> e164_full_match (p # d # r)"
        using v full[of r] by simp
      then show "\<exists>u. v = u @ [CHR 0x0A] \<and> e164_full_match u" by blast
    qed
    have "E164_PATTERN_match v \<longleftrightarrow> ?head \<and> match_digits 1 14 rest"
      by (simp add: v E164_PATTERN_match_def)
    also have "\<dots> \<longleftrightarrow> e164_full_match v \<or> (\<exists>u. v = u @ [CHR 0x0A] \<and> e164_full_match u)"
      unfolding nl m using full[of rest] v by auto
    finally show ?thesis .
  qed
qed

section \<open>Ingestion\<close>

lemma find_Some_list_ex: "find P xs = Some x \<Longrightarrow> list_ex P xs"
  by (induction xs) (auto split: if_splits)

lemma find_None_list_ex: "find P xs = None \<Longrightarrow> \<not> list_ex P xs"
  by (induction xs) (auto split: if_splits)

lemma one_row_per_key:
  "distinct (map f xs) \<Longrightarrow> list_ex (\<lambda>x. f x = k) xs \<Longrightarrow> length (filter (\<lambda>x. f x = k) xs) = 1"
proof (induction xs)
  case Nil
  then show ?case by simp
next
  case (Cons x xs)
  show ?case
  proof (cases "f x = k")
    case True
    have "f y \<noteq> k" if "y \<in> set xs" for y
      using Cons.prems(1) True that by (metis distinct.simps(2) imageI list.simps(9) set_map)
    then have "filter (\<lambda>y. f y = k) xs = []"
      by (simp add: filter_empty_conv)
    with True show ?thesis by simp
  next
    case False
    with Cons show ?thesis by simp
  qed
qed

text \<open>
  A body that parses and validates is answered 200, and is stored unless a row with its
  \<open>message_id\<close> is there already; one that does not is answered 422 and changes nothing.
\<close>

lemma ingest_valid:
  assumes "json_loads L raw = Inr data" "model_validate L data = Inr P"
  shows "ingest_message L now raw rows =
     (Inr ok_response,
      if list_ex (\<lambda>m. message_id m = req_message_id P) rows then rows
      else rows @ [\<lparr>message_id = req_message_id P, sender = req_from P, recipient = req_to P,
                     ts = wall_clock (req_ts P), message_text = req_text P, created_at = now\<rparr>])"
proof (cases "query_first_by_id rows (req_message_id P)")
  case None
  then have "\<not> list_ex (\<lambda>m. message_id m = req_message_id P) rows"
    unfolding query_first_by_id_def by (rule find_None_list_ex)
  with None assms show ?thesis
    by (simp add: ingest_message_def add_commit_def Let_def)
next
  case (Some existing)
  then have "list_ex (\<lambda>m. message_id m = req_message_id P) rows"
    unfolding query_first_by_id_def by (rule find_Some_list_ex)
  with Some assms show ?thesis
    by (simp add: ingest_message_def)
qed

lemma ingest_invalid:
  assumes "json_loads L raw = Inr data" "model_validate L data = Inl e"
  shows "ingest_message L now raw rows = (Inl (HTTPException 422 (Str e)), rows)"
  using assms by (simp add: ingest_message_def)

lemma ingest_invalid_json:
  assumes "json_loads L raw = Inl JSONDecodeError"
  shows "ingest_message L now raw rows = (Inl (HTTPException 422 (Msg ''Invalid JSON'')), rows)"
  using assms by (simp add: ingest_message_def)

lemma model_validate_failed:
  assumes "failed (field_message_id (map_of kvs ''message_id'')) \<or>
           failed (field_from (lookup_from kvs)) \<or>
           failed (field_to (map_of kvs ''to'')) \<or>
           failed (field_ts L (map_of kvs ''ts'')) \<or>
           failed (field_text (map_of kvs ''text''))"
  shows "\<exists>e. model_validate L (JObj kvs) = Inl e"
  using assms
  by (auto simp: model_validate_def Let_def failed_def split: validated.splits)

lemma post_webhook_invalid:
  assumes "validate_signature L s req = Inr raw" "json_loads L raw = Inr data"
    and "model_validate L data = Inl e"
  shows "post_webhook L s now req rows = (Response 422 (DetailJson (Str e)), rows)"
  using assms by (simp add: post_webhook_def ingest_invalid exception_response_def)

text \<open>
  A correctly signed payload whose sender or recipient is a string that the pattern of
  the source does not match is answered 422 and stores nothing.
\<close>

lemma e164_rejected:
  assumes "validate_signature L s req = Inr raw" "json_loads L raw = Inr (JObj kvs)"
    and "(lookup_from kvs = Some (JStr f) \<and> \<not> E164_PATTERN_match f) \<or>
         (map_of kvs ''to'' = Some (JStr t) \<and> \<not> E164_PATTERN_match t)"
  shows "status_code (fst (post_webhook L s now req rows)) = 422 \<and>
         snd (post_webhook L s now req rows) = rows"
proof -
  from assms(3) have "failed (field_from (lookup_from kvs)) \<or> failed (field_to (map_of kvs ''to''))"
    by (auto simp: failed_def field_from_def field_to_def validate_from_e164_def
        validate_to_e164_def str_field_def)
  then obtain e where "model_validate L (JObj kvs) = Inl e"
    using model_validate_failed[of kvs L] by blast
  with assms(1,2) show ?thesis
    by (simp add: post_webhook_invalid)
qed

text \<open>The sender \<open>invalid-phone\<close> of \<^verbatim>\<open>tests/test_api.py\<close> is rejected.\<close>

lemma test_webhook_validates_e164_format:
  "\<not> E164_PATTERN_match ''invalid-phone''"
  by (simp add: E164_PATTERN_match_def)

lemma post_webhook_signed_valid:
  assumes "model_validate (example_library raw data) data = Inr P"
  shows "post_webhook (example_library raw data) example_settings now
           (signed (example_library raw data) raw) rows =
     (ok_response,
      if list_ex (\<lambda>m. message_id m = req_message_id P) rows then rows
      else rows @ [\<lparr>message_id = req_message_id P, sender = req_from P, recipient = req_to P,
                     ts = wall_clock (req_ts P), message_text = req_text P, created_at = now\<rparr>])"
proof -
  have "json_loads (example_library raw data) raw = Inr data"
    by (simp add: example_library_def)
  then show ?thesis
    using assms by (simp add: post_webhook_def validate_signature_signed ingest_valid)
qed

text \<open>
  C4, at the sender \<open>+919876543210\<close> followed by a newline. The string does not match the
  specification's pattern, the pattern of the source matches it, and \<^verbatim>\<open>POST /webhook\<close>
  answers 200 and stores the row with that sender.
\<close>

theorem e164_trailing_newline_accepted:
  "\<not> e164_full_match (''+919876543210'' @ [CHR 0x0A]) \<and>
   E164_PATTERN_match (''+919876543210'' @ [CHR 0x0A]) \<and>
   post_webhook (example_library newline_body newline_data) example_settings 1736935201
       (signed (example_library newline_body newline_data) newline_body) [] =
     (Response 200 (StatusJson ''ok''),
      [\<lparr>message_id = ''m2'', sender = ''+919876543210'' @ [CHR 0x0A],
        recipient = ''+14155550100'', ts = 1736935200, message_text = None,
        created_at = 1736935201\<rparr>])"
proof -
  have a: "\<not> e164_full_match (''+919876543210'' @ [CHR 0x0A])"
    by (simp add: e164_full_match_def is_digit_def less_eq_char_def)
  have b: "E164_PATTERN_match (''+919876543210'' @ [CHR 0x0A])"
    by (simp add: E164_PATTERN_match_def is_digit_def at_dollar_def less_eq_char_def)
  have "model_validate (example_library newline_body newline_data) newline_data =
      Inr \<lparr>req_message_id = ''m2'', req_from = ''+919876543210'' @ [CHR 0x0A],
           req_to = ''+14155550100'', req_ts = \<lparr>wall_clock = 1736935200, utcoffset = Some 0\<rparr>, req_text = None\<rparr>"
    using b
    by (simp add: model_validate_def example_library_def newline_data_def field_message_id_def
        field_from_def field_to_def field_ts_def field_text_def lookup_from_def str_field_def
        validate_from_e164_def validate_to_e164_def validate_ts_utc_def endswith_def
        E164_PATTERN_match_def is_digit_def at_dollar_def less_eq_char_def)
  from post_webhook_signed_valid[OF this, of 1736935201 "[]"] a b show ?thesis
    by (simp add: ok_response_def)
qed

section \<open>Timestamps\<close>

lemma field_ts_not_Z:
  "\<not> endswith t ''Z'' \<Longrightarrow> field_ts L (Some (JStr t)) = ValueError"
  by (simp add: field_ts_def validate_ts_utc_def)

lemma model_validate_ts_failed:
  assumes "field_ts L (map_of kvs ''ts'') = ValueError"
  shows "\<exists>e. model_validate L (JObj kvs) = Inl e"
  using assms
  by (auto simp: model_validate_def Let_def split: validated.splits)

lemma model_validate_Inr:
  assumes "model_validate L data = Inr P"
  shows "\<exists>kvs. data = JObj kvs \<and>
           field_message_id (map_of kvs ''message_id'') = Valid (req_message_id P) \<and>
           field_from (lookup_from kvs) = Valid (req_from P) \<and>
           field_to (map_of kvs ''to'') = Valid (req_to P) \<and>
           field_ts L (map_of kvs ''ts'') = Valid (req_ts P) \<and>
           field_text (map_of kvs ''text'') = Valid (req_text P)"
proof (cases data)
  case (JObj kvs)
  with assms show ?thesis
    by (auto simp: model_validate_def Let_def split: validated.splits if_splits)
qed (use assms in \<open>simp_all add: model_validate_def\<close>)

lemma field_ts_Valid:
  assumes "field_ts L x = Valid t"
  shows "\<exists>v. x = Some v \<and> to_datetime L v = Some t \<and>
           (case v of JStr u \<Rightarrow> endswith u ''Z'' | _ \<Rightarrow> True)"
  using assms
  by (auto simp: field_ts_def validate_ts_utc_def
      split: option.splits validated.splits json.splits if_splits)

text \<open>
  C5. The code departs from the claim on a timestamp that is a JSON number. The text
  \<open>1736935200\<close> of the \<open>ts\<close> field does not end in \<open>Z\<close>, yet the correctly signed
  request is answered 200 and the row is stored: \<^verbatim>\<open>validate_ts_utc\<close> looks for the
  suffix only in a \<^verbatim>\<open>str\<close> and passes every other value on to the \<^verbatim>\<open>datetime\<close>
  coercion, which reads a number as a Unix time. The description of the field in
  \<^verbatim>\<open>app/schemas/message.py\<close> (\<^verbatim>\<open>must end with Z\<close>), the docstring of the validator
  (\<^verbatim>\<open>Validate timestamp ends with Z (UTC)\<close>) and the docstring of the test (\<^verbatim>\<open>POST
  /webhook requires timestamp ending with Z\<close>) all say what the claim says.
\<close>

theorem numeric_ts_accepted:
  "\<not> endswith ''1736935200'' ''Z'' \<and>
   post_webhook (example_library numeric_ts_body numeric_ts_data) example_settings 1736935201
       (signed (example_library numeric_ts_body numeric_ts_data) numeric_ts_body) [] =
     (Response 200 (StatusJson ''ok''),
      [\<lparr>message_id = ''m3'', sender = ''+919876543210'', recipient = ''+14155550100'',
        ts = 1736935200, message_text = None, created_at = 1736935201\<rparr>])"
proof -
  have "model_validate (example_library numeric_ts_body numeric_ts_data) numeric_ts_data =
      Inr \<lparr>req_message_id = ''m3'', req_from = ''+919876543210'',
           req_to = ''+14155550100'', req_ts = \<lparr>wall_clock = 1736935200, utcoffset = Some 0\<rparr>, req_text = None\<rparr>"
    by (simp add: model_validate_def example_library_def numeric_ts_data_def field_message_id_def
        field_from_def field_to_def field_ts_def field_text_def lookup_from_def str_field_def
        validate_from_e164_def validate_to_e164_def validate_ts_utc_def endswith_def
        E164_PATTERN_match_def is_digit_def at_dollar_def less_eq_char_def)
  from post_webhook_signed_valid[OF this, of 1736935201 "[]"] show ?thesis
    by (simp add: ok_response_def endswith_def)
qed

text \<open>
  On the timestamps that are JSON strings the check is made. A correctly signed payload
  whose \<open>ts\<close> is a JSON string that does not end in \<open>Z\<close> is answered 422 and stores
  nothing, whatever instant the string denotes. And a payload is accepted only if its
  \<open>ts\<close> is there, the \<^verbatim>\<open>datetime\<close> coercion accepts it, and, when it is a string, it
  ends in \<open>Z\<close>.
\<close>

lemma ts_textual_Z:
  "(validate_signature L s req = Inr raw \<and> json_loads L raw = Inr (JObj kvs) \<and>
    map_of kvs ''ts'' = Some (JStr t) \<and> \<not> endswith t ''Z'' \<longrightarrow>
      status_code (fst (post_webhook L s now req rows)) = 422 \<and>
      snd (post_webhook L s now req rows) = rows) \<and>
   (model_validate L data = Inr P \<longrightarrow>
      (\<exists>kvs v. data = JObj kvs \<and> map_of kvs ''ts'' = Some v \<and>
         to_datetime L v = Some (req_ts P) \<and>
         (case v of JStr u \<Rightarrow> endswith u ''Z'' | _ \<Rightarrow> True)))"
proof (intro conjI impI)
  assume a: "validate_signature L s req = Inr raw \<and> json_loads L raw = Inr (JObj kvs) \<and>
    map_of kvs ''ts'' = Some (JStr t) \<and> \<not> endswith t ''Z''"
  then have "field_ts L (map_of kvs ''ts'') = ValueError"
    by (simp add: field_ts_not_Z)
  then obtain e where "model_validate L (JObj kvs) = Inl e"
    using model_validate_ts_failed by blast
  with a have "post_webhook L s now req rows = (Response 422 (DetailJson (Str e)), rows)"
    by (simp add: post_webhook_def ingest_invalid exception_response_def)
  then show "status_code (fst (post_webhook L s now req rows)) = 422"
    and "snd (post_webhook L s now req rows) = rows"
    by simp_all
next
  assume "model_validate L data = Inr P"
  then obtain kvs where "data = JObj kvs" "field_ts L (map_of kvs ''ts'') = Valid (req_ts P)"
    using model_validate_Inr by blast
  then show "\<exists>kvs v. data = JObj kvs \<and> map_of kvs ''ts'' = Some v \<and>
         to_datetime L v = Some (req_ts P) \<and>
         (case v of JStr u \<Rightarrow> endswith u ''Z'' | _ \<Rightarrow> True)"
    using field_ts_Valid by blast
qed

lemma ts_textual_Z_witness:
  "\<not> endswith ''2025-01-15T10:00:00+05:30'' ''Z'' \<and>
   status_code (fst (post_webhook (example_library offset_ts_body (JObj offset_ts_kvs))
       example_settings 1736935201
       (signed (example_library offset_ts_body (JObj offset_ts_kvs)) offset_ts_body) [])) = 422 \<and>
   snd (post_webhook (example_library offset_ts_body (JObj offset_ts_kvs))
       example_settings 1736935201
       (signed (example_library offset_ts_body (JObj offset_ts_kvs)) offset_ts_body) []) = [] \<and>
   (\<exists>kvs v. example_data = JObj kvs \<and> map_of kvs ''ts'' = Some v \<and>
      to_datetime (example_library offset_ts_body (JObj offset_ts_kvs)) v =
        Some \<lparr>wall_clock = 1736935200, utcoffset = Some 0\<rparr> \<and>
      (case v of JStr u \<Rightarrow> endswith u ''Z'' | _ \<Rightarrow> True))"
proof -
  let ?L = "example_library offset_ts_body (JObj offset_ts_kvs)"
  let ?P = "\<lparr>req_message_id = ''m1'', req_from = ''+919876543210'', req_to = ''+14155550100'',
             req_ts = \<lparr>wall_clock = 1736935200, utcoffset = Some 0\<rparr>, req_text = Some ''Hello''\<rparr>"
  have z: "\<not> endswith ''2025-01-15T10:00:00+05:30'' ''Z''"
    by (simp add: endswith_def)
  have h1: "validate_signature ?L example_settings (signed ?L offset_ts_body) = Inr offset_ts_body"
    by (rule validate_signature_signed)
  have h2: "json_loads ?L offset_ts_body = Inr (JObj offset_ts_kvs)"
    by (simp add: example_library_def)
  have h3: "map_of offset_ts_kvs ''ts'' = Some (JStr ''2025-01-15T10:00:00+05:30'')"
    by (simp add: offset_ts_kvs_def)
  have h4: "model_validate ?L example_data = Inr ?P"
    by (simp add: model_validate_def example_library_def example_data_def field_message_id_def
        field_from_def field_to_def field_ts_def field_text_def lookup_from_def str_field_def
        validate_from_e164_def validate_to_e164_def validate_ts_utc_def endswith_def
        E164_PATTERN_match_def is_digit_def at_dollar_def less_eq_char_def)
  from ts_textual_Z[of ?L example_settings "signed ?L offset_ts_body" offset_ts_body
      offset_ts_kvs "''2025-01-15T10:00:00+05:30''" 1736935201 "[]" example_data ?P]
    z h1 h2 h3 h4
  show ?thesis by simp
qed

text \<open>
  C1. On a table whose keys are distinct, a request with the digest of its body as
  signature and a body that parses and validates is answered 200; sent again, it is
  answered 200 and leaves the table as the first call left it; and that table has exactly
  one row with the payload's \<open>message_id\<close>, and distinct keys still.
\<close>

theorem ingest_twice:
  assumes pk: "primary_key_ok rows"
    and secret: "webhook_secret s = Some secret" "secret \<noteq> []"
    and digest: "length (hmac_sha256 L (encode_utf8 secret) (body req)) = 32"
    and sig: "x_signature req = Some (compute_signature L secret (body req))"
    and json: "json_loads L (body req) = Inr data"
    and valid: "model_validate L data = Inr P"
  shows "fst (post_webhook L s now req rows) = Response 200 (StatusJson ''ok'') \<and>
         post_webhook L s now' req (snd (post_webhook L s now req rows)) =
           (Response 200 (StatusJson ''ok''), snd (post_webhook L s now req rows)) \<and>
         stored_count (req_message_id P) (snd (post_webhook L s now req rows)) = 1 \<and>
         primary_key_ok (snd (post_webhook L s now req rows))"
proof -
  have v: "validate_signature L s req = Inr (body req)"
    using secret sig digest by (intro validate_signature_correct) auto
  let ?new = "\<lparr>message_id = req_message_id P, sender = req_from P, recipient = req_to P,
                 ts = wall_clock (req_ts P), message_text = req_text P, created_at = now\<rparr>"
  let ?rows1 = "if list_ex (\<lambda>m. message_id m = req_message_id P) rows then rows else rows @ [?new]"
  have first: "post_webhook L s now req rows = (ok_response, ?rows1)"
    by (simp add: post_webhook_def v ingest_valid[OF json valid])
  have ex: "list_ex (\<lambda>m. message_id m = req_message_id P) ?rows1"
    by simp
  have second: "post_webhook L s now' req ?rows1 = (ok_response, ?rows1)"
    using ex by (simp add: post_webhook_def v ingest_valid[OF json valid])
  have pk1: "primary_key_ok ?rows1"
    using pk by (auto simp: primary_key_ok_def list_ex_iff)
  have "stored_count (req_message_id P) ?rows1 = 1"
    unfolding stored_count_def using pk1 ex unfolding primary_key_ok_def by (rule one_row_per_key)
  with first second pk1 show ?thesis by (simp add: ok_response_def)
qed

theorem ingest_twice_witness:
  "primary_key_ok [] \<and>
   fst (post_webhook (example_library example_body example_data) example_settings 1736935201
          (signed (example_library example_body example_data) example_body) []) =
     Response 200 (StatusJson ''ok'') \<and>
   post_webhook (example_library example_body example_data) example_settings 1736935299
       (signed (example_library example_body example_data) example_body)
       (snd (post_webhook (example_library example_body example_data) example_settings 1736935201
          (signed (example_library example_body example_data) example_body) [])) =
     (Response 200 (StatusJson ''ok''),
      [\<lparr>message_id = ''m1'', sender = ''+919876543210'', recipient = ''+14155550100'',
        ts = 1736935200, message_text = Some ''Hello'', created_at = 1736935201\<rparr>]) \<and>
   stored_count ''m1''
       (snd (post_webhook (example_library example_body example_data) example_settings 1736935201
          (signed (example_library example_body example_data) example_body) [])) = 1"
proof -
  let ?L = "example_library example_body example_data"
  let ?P = "\<lparr>req_message_id = ''m1'', req_from = ''+919876543210'', req_to = ''+14155550100'',
             req_ts = \<lparr>wall_clock = 1736935200, utcoffset = Some 0\<rparr>, req_text = Some ''Hello''\<rparr>"
  have h1: "primary_key_ok []"
    by (simp add: primary_key_ok_def)
  have h2: "webhook_secret example_settings = Some ''test-secret-key-12345''"
    by (simp add: example_settings_def)
  have h3: "''test-secret-key-12345'' \<noteq> []"
    by simp
  have h4: "length (hmac_sha256 ?L (encode_utf8 ''test-secret-key-12345'')
      (body (signed ?L example_body))) = 32"
    by (simp add: example_library_def example_hmac_length)
  have h5: "x_signature (signed ?L example_body) =
      Some (compute_signature ?L ''test-secret-key-12345'' (body (signed ?L example_body)))"
    by (simp add: signed_def)
  have h6: "json_loads ?L (body (signed ?L example_body)) = Inr example_data"
    by (simp add: example_library_def signed_def)
  have h7: "model_validate ?L example_data = Inr ?P"
    by (simp add: model_validate_def example_library_def example_data_def field_message_id_def
        field_from_def field_to_def field_ts_def field_text_def lookup_from_def str_field_def
        validate_from_e164_def validate_to_e164_def validate_ts_utc_def endswith_def
        E164_PATTERN_match_def is_digit_def at_dollar_def less_eq_char_def)
  have first: "post_webhook ?L example_settings 1736935201 (signed ?L example_body) [] =
      (ok_response,
       [\<lparr>message_id = ''m1'', sender = ''+919876543210'', recipient = ''+14155550100'',
         ts = 1736935200, message_text = Some ''Hello'', created_at = 1736935201\<rparr>])"
    using post_webhook_signed_valid[OF h7, of 1736935201 "[]"] by simp
  from ingest_twice[OF h1 h2 h3 h4 h5 h6 h7, of 1736935201 1736935299] h1 first
  show ?thesis by simp
qed

section \<open>Searching text\<close>

lemma of_char_sql_lower_char:
  "(of_char (sql_lower_char c) :: nat) =
     (if 65 \<le> (of_char c :: nat) \<and> (of_char c :: nat) \<le> 90 then of_char c + 32 else of_char c)"
  by (simp add: sql_lower_char_def less_eq_char_def)




















lemma length_encode_utf8_append: "length (encode_utf8 (a @ b)) = length (encode_utf8 a) + length (encode_utf8 b)"
  by (simp add: encode_utf8_def)

lemma length_encode_utf8_sql_lower: "length (encode_utf8 (sql_lower s)) = length (encode_utf8 s)"
proof (induction s)
  case Nil
  show ?case by (simp add: sql_lower_def encode_utf8_def)
next
  case (Cons c s)
  have "(of_char (sql_lower_char c) :: nat) < 128 \<longleftrightarrow> (of_char c :: nat) < 128"
    unfolding of_char_sql_lower_char by auto
  with Cons show ?case
    by (simp add: sql_lower_def encode_utf8_def Let_def)
qed

lemma like_raises_iff:
  "like_raises (''%'' @ qs @ ''%'') \<longleftrightarrow> 49998 < length (encode_utf8 qs)"
proof -
  have "length (encode_utf8 ''%'') = 1"
    by (simp add: encode_utf8_def)
  then have "length (encode_utf8 (''%'' @ qs @ ''%'')) = length (encode_utf8 qs) + 2"
    by (simp only: length_encode_utf8_append)
  then show ?thesis
    by (simp only: like_raises_def SQLITE_MAX_LIKE_PATTERN_LENGTH_def
        length_encode_utf8_sql_lower) arith
qed

section \<open>Listing\<close>

lemma apply_filters_filter:
  "apply_filters rows from' since q =
     filter (\<lambda>m. (case from' of None \<Rightarrow> True | Some f \<Rightarrow> f = [] \<or> sender m = f) \<and>
                 (case since of None \<Rightarrow> True | Some t \<Rightarrow> wall_clock t \<le> ts m) \<and>
                 (case q of None \<Rightarrow> True | Some qs \<Rightarrow> qs = [] \<or> ilike (message_text m) (''%'' @ qs @ ''%'')))
       rows"
  by (auto simp: apply_filters_def Let_def split: option.splits intro: filter_cong)


lemma list_messages_data:
  "resp_data (list_messages rows limit offset from' since q) =
     map to_response (take limit (drop offset (sort_key (\<lambda>m. (ts m, message_id m)) (apply_filters rows from' since q))))"
  by (simp add: list_messages_def Let_def)

lemma list_messages_total:
  "resp_total (list_messages rows limit offset from' since q) = length (apply_filters rows from' since q)"
  by (simp add: list_messages_def Let_def)

lemma response_key_to_response: "map response_key (map to_response xs) = map order_key xs"
  by (simp add: response_key_def order_key_def to_response_def)

lemma map_key_page:
  "map response_key (resp_data (list_messages rows limit offset from' since q)) =
     take limit (drop offset (map order_key (sort_key order_key (apply_filters rows from' since q))))"
  unfolding list_messages_data response_key_to_response
  by (simp add: take_map drop_map order_key_def[abs_def])

lemma sorted_page: "sorted (map response_key (resp_data (list_messages rows limit offset from' since q)))"
  unfolding map_key_page by (intro sorted_wrt_take sorted_wrt_drop sorted_sort_key)

lemma distinct_keys:
  assumes "primary_key_ok rows"
  shows "distinct (map order_key (apply_filters rows from' since q))"
proof -
  have "distinct (map message_id (apply_filters rows from' since q))"
    using assms unfolding primary_key_ok_def apply_filters_filter by (rule distinct_map_filter)
  then have "distinct (apply_filters rows from' since q)"
    and "inj_on message_id (set (apply_filters rows from' since q))"
    by (simp_all add: distinct_map)
  moreover from this(2) have "inj_on order_key (set (apply_filters rows from' since q))"
    by (auto simp: inj_on_def order_key_def)
  ultimately show ?thesis by (simp add: distinct_map)
qed

lemma strict_page:
  assumes "primary_key_ok rows"
  shows "sorted_wrt (<) (map response_key (resp_data (list_messages rows limit offset from' since q)))"
proof -
  have "distinct (map order_key (sort_key order_key (apply_filters rows from' since q)))"
    using distinct_keys[OF assms, of from' since q]
    by (metis distinct_map distinct_sort set_sort)
  then have "distinct (take limit (drop offset (map order_key (sort_key order_key (apply_filters rows from' since q)))))"
    by (intro distinct_take distinct_drop)
  then show ?thesis
    using sorted_page[of rows limit offset from' since q] unfolding map_key_page
    by (simp add: strict_sorted_iff)
qed

lemma storage_order_irrelevant:
  assumes "primary_key_ok rows" "primary_key_ok rows'" "set rows = set rows'"
  shows "list_messages rows limit offset from' since q = list_messages rows' limit offset from' since q"
proof -
  let ?A = "apply_filters rows from' since q" and ?B = "apply_filters rows' from' since q"
  have set_eq: "set ?A = set ?B"
    using assms(3) by (simp add: apply_filters_filter)
  have dA: "distinct ?A" and dB: "distinct ?B"
    using distinct_keys[OF assms(1), of from' since q] distinct_keys[OF assms(2), of from' since q]
    by (simp_all add: distinct_map)
  have len: "length ?A = length ?B"
    using set_eq dA dB by (metis distinct_card)
  have inj: "inj_on order_key (set ?A \<union> set ?B)"
    using distinct_keys[OF assms(1), of from' since q] set_eq by (simp add: distinct_map)
  let ?SA = "sort_key order_key ?A" and ?SB = "sort_key order_key ?B"
  have "map order_key ?SA = map order_key ?SB"
  proof (rule sorted_distinct_set_unique)
    show "sorted (map order_key ?SA)" "sorted (map order_key ?SB)" by (rule sorted_sort_key)+
    show "distinct (map order_key ?SA)"
      using distinct_keys[OF assms(1), of from' since q] by (metis distinct_map distinct_sort set_sort)
    show "distinct (map order_key ?SB)"
      using distinct_keys[OF assms(2), of from' since q] by (metis distinct_map distinct_sort set_sort)
    show "set (map order_key ?SA) = set (map order_key ?SB)"
      using set_eq by simp
  qed
  moreover have "inj_on order_key (set ?SA \<union> set ?SB)"
    using inj by simp
  ultimately have "?SA = ?SB"
    by (simp add: inj_on_map_eq_map)
  then show ?thesis
    using len by (simp add: list_messages_def Let_def order_key_def[abs_def])
qed

lemma example_rows_key_ok: "primary_key_ok example_rows"
  by (simp add: primary_key_ok_def example_rows_def)


lemma get_messages_Inr:
  "get_messages rows limit offset from' since q = Inr r \<Longrightarrow>
   r = list_messages rows limit offset from' since q"
  by (auto simp: get_messages_def split: sum.splits)


lemma get_messages_long_pattern:
  assumes "49998 < length (encode_utf8 qs)" "apply_filters rows from' since None \<noteq> []"
  shows "get_messages rows limit offset from' since (Some qs) = Inl OperationalError"
proof -
  from assms(1) have "qs \<noteq> []"
    by (auto simp: encode_utf8_def)
  moreover from assms(1) have "like_raises (''%'' @ qs @ ''%'')"
    unfolding like_raises_iff .
  ultimately show ?thesis
    using assms(2) unfolding get_messages_def execute_filters_def
    by (simp only: option.case sum.case if_True simp_thms)
qed




text \<open>The search of \<^verbatim>\<open>tests/test_api.py\<close>, which differs from the text in case.\<close>

lemma test_messages_text_search:
  "ilike (Some ''Message 2'') ''%message 2%'' \<and> \<not> ilike (Some ''Message 1'') ''%message 2%''"
  by code_simp

text \<open>
  Outside the amended claim. A \<open>q\<close> that is the one character \<^verbatim>\<open>_\<close> selects a row whose
  text has no underscore, since the character is a wildcard of the pattern.
\<close>

lemma underscore_is_a_wildcard:
  "apply_filters [example_rows ! 1] None None (Some ''_'') = [example_rows ! 1] \<and>
   message_text (example_rows ! 1) = Some ''Message 0'' \<and> \<not> contains_ci ''_'' ''Message 0''"
  by code_simp

text \<open>
  A text ends for \<^verbatim>\<open>LIKE\<close> at its first NUL, and so does the pattern: what follows the
  NUL of a text is not found, and what follows the NUL of a search string is not sought.
\<close>

lemma nul_ends_text_and_pattern:
  "contains_ci ''def'' (''abc'' @ [CHR 0x00] @ ''def'') \<and>
   \<not> ilike (Some (''abc'' @ [CHR 0x00] @ ''def'')) ''%def%'' \<and>
   \<not> contains_ci (''z'' @ [CHR 0x00] @ ''q'') ''xyz'' \<and>
   ilike (Some ''xyz'') (''%z'' @ [CHR 0x00] @ ''q%'')"
  by code_simp

text \<open>Letters that are not ASCII are compared with regard to case.\<close>

lemma non_ascii_letters_keep_their_case:
  "contains_ci [CHR 0xE9] [CHR 0xC9] \<and> \<not> ilike (Some [CHR 0xC9]) (''%'' @ [CHR 0xE9] @ ''%'')"
  by code_simp

text \<open>
  The offset of \<open>since\<close> is dropped: 12:00:00 at +05:30 is 06:30:00 UTC, before the row of
  10:00:00 UTC, and the row is not selected.
\<close>

lemma since_offset_is_dropped:
  "instant \<lparr>wall_clock = 1736942400, utcoffset = Some 19800\<rparr> \<le> ts (example_rows ! 1) \<and>
   apply_filters [example_rows ! 1] None
     (Some \<lparr>wall_clock = 1736942400, utcoffset = Some 19800\<rparr>) None = []"
  by (simp add: instant_def example_rows_def apply_filters_def)

text \<open>
  C7. The keys \<open>(ts, message_id)\<close> of the returned messages are in non-decreasing order,
  whatever the filters and the page. On a table with distinct \<open>message_id\<close>s they are in
  strictly increasing order, and the response is the same for any two such tables that
  hold the same rows: it does not depend on the order in which the rows are stored.
\<close>

theorem list_messages_ordered:
  "sorted (map response_key (resp_data (list_messages rows limit offset from' since q))) \<and>
   (primary_key_ok rows \<longrightarrow>
      sorted_wrt (<) (map response_key (resp_data (list_messages rows limit offset from' since q)))) \<and>
   (primary_key_ok rows \<and> primary_key_ok rows' \<and> set rows = set rows' \<longrightarrow>
      list_messages rows limit offset from' since q =
      list_messages rows' limit offset from' since q)"
  using sorted_page strict_page storage_order_irrelevant by blast

theorem list_messages_ordered_witness:
  "primary_key_ok example_rows \<and> primary_key_ok (rev example_rows) \<and>
   set example_rows = set (rev example_rows) \<and>
   map response_key (resp_data (list_messages example_rows 50 0 None None None)) =
     [(1736935200, ''msg-0''), (1736935260, ''msg-1''), (1736935320, ''msg-2'')] \<and>
   sorted_wrt (<) (map response_key (resp_data (list_messages example_rows 50 0 None None None))) \<and>
   list_messages example_rows 50 0 None None None =
     list_messages (rev example_rows) 50 0 None None None"
proof -
  have h1: "primary_key_ok example_rows"
    by (rule example_rows_key_ok)
  have h2: "primary_key_ok (rev example_rows)"
    by (simp add: primary_key_ok_def example_rows_def)
  have h3: "set example_rows = set (rev example_rows)"
    by simp
  have e: "map response_key (resp_data (list_messages example_rows 50 0 None None None)) =
     [(1736935200, ''msg-0''), (1736935260, ''msg-1''), (1736935320, ''msg-2'')]"
    by (simp add: list_messages_def apply_filters_def example_rows_def response_key_def
        to_response_def)
  note t = list_messages_ordered[of example_rows 50 0 None None None "rev example_rows"]
  from t h1 have s:
    "sorted_wrt (<) (map response_key (resp_data (list_messages example_rows 50 0 None None None)))"
    by blast
  from t h1 h2 h3 have d:
    "list_messages example_rows 50 0 None None None =
     list_messages (rev example_rows) 50 0 None None None"
    by blast
  from h1 h2 h3 e s d show ?thesis
    by (intro conjI)
qed



text \<open>
  C10. With a \<open>q\<close> that is not empty, no returned message has an absent text, and a stored
  row with an absent text is not among the selected rows.
\<close>

theorem null_text_never_matches:
  assumes "qs \<noteq> []"
  shows "(\<forall>r \<in> set (resp_data (list_messages rows limit offset from' since (Some qs))).
            r_text r \<noteq> None) \<and>
         (\<forall>m \<in> set rows. message_text m = None \<longrightarrow>
            m \<notin> set (apply_filters rows from' since (Some qs)))"
proof (intro conjI ballI impI)
  fix r assume "r \<in> set (resp_data (list_messages rows limit offset from' since (Some qs)))"
  then obtain m where m: "r = to_response m"
      "m \<in> set (take limit (drop offset (sort_key (\<lambda>m. (ts m, message_id m))
         (apply_filters rows from' since (Some qs)))))"
    unfolding list_messages_data by auto
  from m(2) have "m \<in> set (apply_filters rows from' since (Some qs))"
    by (metis in_set_takeD in_set_dropD set_sort)
  then have "ilike (message_text m) (''%'' @ qs @ ''%'')"
    using assms by (simp add: apply_filters_filter)
  then have "message_text m \<noteq> None"
    by (auto simp: ilike_def split: option.splits)
  then show "r_text r \<noteq> None"
    by (simp add: m(1) to_response_def)
next
  fix m assume "m \<in> set rows" "message_text m = None"
  then show "m \<notin> set (apply_filters rows from' since (Some qs))"
    using assms by (simp add: apply_filters_filter ilike_def)
qed

theorem null_text_never_matches_witness:
  "''%'' \<noteq> [] \<and> message_text (example_rows ! 0) = None \<and>
   example_rows ! 0 \<notin> set (apply_filters example_rows None None (Some ''%'')) \<and>
   map r_text (resp_data (list_messages example_rows 50 0 None None (Some ''%''))) =
     [Some ''Message 0'', Some ''Hello World'']"
proof -
  have h: "''%'' \<noteq> []" by simp
  have n: "example_rows ! 0 \<in> set example_rows" "message_text (example_rows ! 0) = None"
    by (simp_all add: example_rows_def)
  have e: "map r_text (resp_data (list_messages example_rows 50 0 None None (Some ''%''))) =
     [Some ''Message 0'', Some ''Hello World'']"
    by code_simp
  from null_text_never_matches[OF h, of example_rows 50 0 None None] n e
  show ?thesis by simp
qed

section \<open>The duration buffers\<close>

lemma length_lastn: "length (lastn n xs) \<le> n"
  by (simp add: lastn_def)

lemma lastn_lastn_append: "lastn n (lastn n xs @ ys) = lastn n (xs @ ys)"
  by (cases "length xs \<le> n") (auto simp: lastn_def add.commute)

lemma record_request_durations:
  "http_request_duration_seconds (record_request M method path status duration) k =
     (if k = method @ ''_'' @ path then Some (lastn 1000 (buffer M k @ [duration]))
      else http_request_duration_seconds M k)"
  by (simp add: record_request_def Let_def lastn_def buffer_def)

lemma record_request_bounded:
  "buffers_bounded M \<Longrightarrow> buffers_bounded (record_request M method path status duration)"
  unfolding buffers_bounded_def
  by (auto simp: record_request_durations length_lastn simp del: length_drop split: if_splits)

lemma record_requests_bounded:
  "buffers_bounded M \<Longrightarrow> buffers_bounded (record_requests M calls)"
proof (induction calls arbitrary: M)
  case Nil
  then show ?case by simp
next
  case (Cons c calls)
  obtain m p st d where c: "c = (m, p, st, d)"
    by (cases c) auto
  from Cons.prems have "buffers_bounded (record_request M m p st d)"
    by (rule record_request_bounded)
  then show ?case
    unfolding c by (simp add: Cons.IH)
qed

lemma record_requests_durations:
  "http_request_duration_seconds (record_requests M calls) k =
     (if samples k calls = [] then http_request_duration_seconds M k
      else Some (lastn 1000 (buffer M k @ samples k calls)))"
proof (induction calls arbitrary: M)
  case Nil
  show ?case by (simp add: samples_def)
next
  case (Cons c calls)
  obtain m p st d where c: "c = (m, p, st, d)"
    by (cases c) auto
  let ?M = "record_request M m p st d"
  show ?case
  proof (cases "m @ ''_'' @ p = k")
    case True
    then have b: "buffer ?M k = lastn 1000 (buffer M k @ [d])"
      by (simp add: buffer_def record_request_durations)
    have s: "samples k ((m, p, st, d) # calls) = d # samples k calls"
      using True by (simp add: samples_def)
    show ?thesis
      using Cons.IH[of ?M] True
      by (simp add: c s b lastn_lastn_append record_request_durations)
  next
    case False
    then have b: "buffer ?M k = buffer M k"
      by (auto simp add: buffer_def record_request_durations)
    have s: "samples k ((m, p, st, d) # calls) = samples k calls"
      using False by (simp add: samples_def)
    show ?thesis
      using Cons.IH[of ?M] False
      by (auto simp add: c s b record_request_durations)
  qed
qed

text \<open>
  C8. The bound of 1000 samples per key is an invariant of \<^verbatim>\<open>record_request\<close>, hence of
  every run of calls; and after a run the list stored under a key is the last 1000 elements
  of what was stored before followed by the durations the run recorded under that key, in
  the order of the calls. From the empty metrics of a fresh process that is the last 1000
  durations recorded under the key. Two (method, path) pairs share a buffer when
  \<open>method @ ''_'' @ path\<close> is the same string for both.
\<close>

theorem duration_buffer_capped:
  assumes "buffers_bounded M"
  shows "buffers_bounded (record_request M method path status duration) \<and>
         buffers_bounded (record_requests M calls) \<and>
         http_request_duration_seconds (record_requests M calls) k =
           (if samples k calls = [] then http_request_duration_seconds M k
            else Some (lastn 1000 (buffer M k @ samples k calls))) \<and>
         buffers_bounded (record_requests initial_metrics calls) \<and>
         http_request_duration_seconds (record_requests initial_metrics calls) k =
           (if samples k calls = [] then None else Some (lastn 1000 (samples k calls)))"
proof -
  have "buffers_bounded initial_metrics"
    by (simp add: buffers_bounded_def initial_metrics_def)
  then have i: "buffers_bounded (record_requests initial_metrics calls)"
    by (rule record_requests_bounded)
  have "buffer initial_metrics k = []"
    by (simp add: buffer_def initial_metrics_def)
  moreover have "http_request_duration_seconds initial_metrics k = None"
    by (simp add: initial_metrics_def)
  ultimately have
    "http_request_duration_seconds (record_requests initial_metrics calls) k =
       (if samples k calls = [] then None else Some (lastn 1000 (samples k calls)))"
    by (simp add: record_requests_durations)
  with assms i show ?thesis
    by (simp add: record_request_bounded record_requests_bounded record_requests_durations)
qed

theorem duration_buffer_capped_witness:
  "buffers_bounded initial_metrics \<and>
   buffers_bounded (record_request initial_metrics ''GET'' ''/messages'' 200 (1 / 4)) \<and>
   http_request_duration_seconds
     (record_requests initial_metrics
        [(''GET'', ''/messages'', 200, 1 / 4), (''POST'', ''/webhook'', 200, 1),
         (''GET'', ''/messages'', 200, 1 / 2)])
     ''GET_/messages'' = Some [1 / 4, 1 / 2]"
proof -
  have h: "buffers_bounded initial_metrics"
    by (simp add: buffers_bounded_def initial_metrics_def)
  let ?calls = "[(''GET'', ''/messages'', 200, 1 / 4), (''POST'', ''/webhook'', 200, 1),
        (''GET'', ''/messages'', 200, 1 / 2)] :: call list"
  note t = duration_buffer_capped[OF h, of "''GET''" "''/messages''" 200 "1 / 4" ?calls
      "''GET_/messages''"]
  have a: "buffers_bounded (record_request initial_metrics ''GET'' ''/messages'' 200 (1 / 4))"
    using t by (rule conjunct1)
  have b: "http_request_duration_seconds (record_requests initial_metrics ?calls) ''GET_/messages'' =
       (if samples ''GET_/messages'' ?calls = [] then None
        else Some (lastn 1000 (samples ''GET_/messages'' ?calls)))"
    using t by (elim conjE)
  have c: "samples ''GET_/messages'' ?calls = [1 / 4, 1 / 2]"
    by (simp add: samples_def)
  have "http_request_duration_seconds (record_requests initial_metrics ?calls) ''GET_/messages'' =
       Some [1 / 4, 1 / 2]"
    unfolding b c by (simp add: lastn_def)
  with h a show ?thesis by (simp only: simp_thms)
qed

end
